theory Spec2Isabelle
  imports Main
begin

section \<open>Python values and errors\<close>

text \<open>
  A value parsed from JSON, as Python holds it: \<^verbatim>\<open>None\<close>, a bool, an int, a float, a
  string, a list or a dict. A float is only ever passed on, so it is carried as its literal.
  A dict is an association list in insertion order, one entry per key.
\<close>

datatype json =
    JNull
  | JBool bool
  | JInt int
  | JFloat string
  | JStr string
  | JArr "json list"
  | JObj "(string \<times> json) list"

text \<open>
  The exceptions the modelled code can raise. \<open>ValueError\<close> carries its message.
  \<open>Exception\<close> is the only plain exception of the client,
  \<^verbatim>\<open>Exception(f"Gateway error ({response.status_code}): {error_detail}")\<close>;
  the model keeps the two interpolated values instead of the formatted text.
\<close>

datatype py_error =
    ValueError string
  | JSONDecodeError
  | TypeError
  | AttributeError
  | KeyError
  | Exception int json

text \<open>Sequencing of computations that may raise: the first exception wins.\<close>

definition bind :: "py_error + 'a \<Rightarrow> ('a \<Rightarrow> py_error + 'b) \<Rightarrow> py_error + 'b" where
  "bind m f = (case m of Inl e \<Rightarrow> Inl e | Inr x \<Rightarrow> f x)"

text \<open>Truth value of an \<^verbatim>\<open>Optional[str]\<close>: \<^verbatim>\<open>None\<close> and the empty string are false.\<close>

definition truthy :: "string option \<Rightarrow> bool" where
  "truthy x = (case x of None \<Rightarrow> False | Some s \<Rightarrow> s \<noteq> [])"

text \<open>\<^verbatim>\<open>str(x)\<close> of an \<^verbatim>\<open>Optional[str]\<close>, as an f-string interpolates it.\<close>

definition format_opt :: "string option \<Rightarrow> string" where
  "format_opt x = (case x of None \<Rightarrow> ''None'' | Some s \<Rightarrow> s)"

section \<open>config.py\<close>

record Config =
  gateway_url :: "string option"
  api_id :: "string option"
  region :: string
  stage :: string
  path :: string
  aws_profile :: "string option"
  model_map :: "string \<rightharpoonup> string"
  verbose :: bool

definition default_model_map :: "string \<rightharpoonup> string" where
  "default_model_map = map_of
     [(''sonnet-4.5'', ''anthropic.claude-sonnet-4-5-v1:0''),
      (''sonnet'', ''anthropic.claude-sonnet-4-5-v1:0''),
      (''haiku-4.5'', ''anthropic.claude-haiku-4-5-v1:0''),
      (''haiku'', ''anthropic.claude-haiku-4-5-v1:0'')]"

text \<open>\<^verbatim>\<open>Config()\<close>: every field at its dataclass default.\<close>

definition Config_default :: Config where
  "Config_default =
     \<lparr>gateway_url = None, api_id = None, region = ''us-east-1'', stage = ''prod'',
      path = ''/invoke'', aws_profile = None, model_map = default_model_map,
      verbose = False\<rparr>"

definition get_full_url_message :: string where
  "get_full_url_message =
     ''Either gateway_url or api_id must be configured.'' @ [CHR 0x0A] @
     ''Set via environment variable BEDROCK_GATEWAY_URL or BEDROCK_GATEWAY_API_ID''"

definition get_full_url :: "Config \<Rightarrow> py_error + string" where
  "get_full_url self =
     (if truthy (gateway_url self) then Inr (the (gateway_url self))
      else if \<not> truthy (api_id self) then Inl (ValueError get_full_url_message)
      else Inr (''https://'' @ format_opt (api_id self) @ ''.execute-api.'' @ region self @
                ''.amazonaws.com/'' @ stage self @ path self))"

text \<open>
  \<^verbatim>\<open>get_host\<close> asks for \<^verbatim>\<open>api_id\<close> first and only then parses
  \<^verbatim>\<open>gateway_url\<close>. The parser \<^verbatim>\<open>urllib.parse.urlparse(u).netloc\<close> is a function
  of the standard library and is a parameter here: it returns the authority or raises.
  \<^verbatim>\<open>urlparse(None)\<close> has an empty authority.
\<close>

definition get_host :: "(string \<Rightarrow> py_error + string) \<Rightarrow> Config \<Rightarrow> py_error + string" where
  "get_host urlparse self =
     (if truthy (api_id self)
      then Inr (format_opt (api_id self) @ ''.execute-api.'' @ region self @ ''.amazonaws.com'')
      else (case gateway_url self of None \<Rightarrow> Inr [] | Some u \<Rightarrow> urlparse u))"

subsection \<open>The standard library's URL parser\<close>

text \<open>
  A model of \<^verbatim>\<open>urlparse(url).netloc\<close> after CPython's \<^verbatim>\<open>urlsplit\<close>: leading
  control characters and spaces are stripped, tabs and line breaks are removed, a leading
  scheme is cut off at the first colon, and when the rest starts with two slashes the
  authority runs up to the first of \<^verbatim>\<open>/ ? #\<close>. An authority with one square bracket
  but not the other raises \<^verbatim>\<open>ValueError("Invalid IPv6 URL")\<close>. The validation of a
  bracketed host and of a non-ASCII authority that later releases add is not part of this
  model; the theorems below hold for every parser, and this one serves the concrete
  evaluations.
\<close>

definition scheme_chars :: string where
  "scheme_chars = ''abcdefghijklmnopqrstuvwxyzABCDEFGHIJKLMNOPQRSTUVWXYZ0123456789+-.''"

definition isalpha :: "char \<Rightarrow> bool" where
  "isalpha c = (c \<in> set ''abcdefghijklmnopqrstuvwxyzABCDEFGHIJKLMNOPQRSTUVWXYZ'')"

definition strip_scheme :: "string \<Rightarrow> string" where
  "strip_scheme url =
     (let pre = takeWhile (\<lambda>c. c \<noteq> CHR '':'') url in
      if CHR '':'' \<in> set url \<and> pre \<noteq> [] \<and> isalpha (hd pre) \<and> (\<forall>c \<in> set pre. c \<in> set scheme_chars)
      then drop (length pre + 1) url else url)"

definition urlparse_netloc :: "string \<Rightarrow> py_error + string" where
  "urlparse_netloc url0 =
     (let url1 = dropWhile (\<lambda>c. (of_char c :: nat) \<le> 32) url0;
          url2 = filter (\<lambda>c. c \<notin> {CHR 0x09, CHR 0x0D, CHR 0x0A}) url1;
          url = strip_scheme url2
      in if take 2 url = ''//''
         then (let netloc = takeWhile (\<lambda>c. c \<notin> set ''/?#'') (drop 2 url) in
               if (CHR ''['' \<in> set netloc \<and> CHR '']'' \<notin> set netloc) \<or>
                  (CHR '']'' \<in> set netloc \<and> CHR ''['' \<notin> set netloc)
               then Inl (ValueError ''Invalid IPv6 URL'')
               else Inr netloc)
         else Inr [])"

subsection \<open>Loading from the environment and from the settings file\<close>

text \<open>
  The environment is a map from variable names to values; \<^verbatim>\<open>os.getenv\<close> with a default is
  \<open>getenv\<close>. \<^verbatim>\<open>str.lower\<close> is modelled on ASCII letters, which decides the comparison
  with \<^verbatim>\<open>true\<close>.
\<close>

definition getenv :: "(string \<rightharpoonup> string) \<Rightarrow> string \<Rightarrow> string \<Rightarrow> string" where
  "getenv env k d = (case env k of None \<Rightarrow> d | Some v \<Rightarrow> v)"

definition lower :: "string \<Rightarrow> string" where
  "lower s = map (\<lambda>c. if c \<in> set ''ABCDEFGHIJKLMNOPQRSTUVWXYZ''
                        then char_of (of_char c + (32::nat)) else c) s"

definition from_env :: "(string \<rightharpoonup> string) \<Rightarrow> Config" where
  "from_env env =
     \<lparr>gateway_url = env ''BEDROCK_GATEWAY_URL'',
      api_id = env ''BEDROCK_GATEWAY_API_ID'',
      region = getenv env ''BEDROCK_GATEWAY_REGION'' ''us-east-1'',
      stage = getenv env ''BEDROCK_GATEWAY_STAGE'' ''prod'',
      path = getenv env ''BEDROCK_GATEWAY_PATH'' ''/invoke'',
      aws_profile = env ''AWS_PROFILE'',
      model_map = default_model_map,
      verbose = (lower (getenv env ''BEDROCK_GATEWAY_VERBOSE'' []) = ''true'')\<rparr>"

text \<open>
  The settings file, when it exists and loads, is a dictionary of keyword arguments for the
  dataclass: a key that is present gives the field, an absent key leaves the default.
  The file is \<open>None\<close> when it does not exist, and \<open>Some (Inl e)\<close> when opening,
  loading or the constructor call raises.
\<close>

record file_data =
  yaml_gateway_url :: "string option option"
  yaml_api_id :: "string option option"
  yaml_region :: "string option"
  yaml_stage :: "string option"
  yaml_path :: "string option"
  yaml_aws_profile :: "string option option"
  yaml_model_map :: "(string \<rightharpoonup> string) option"
  yaml_verbose :: "bool option"

definition keyword :: "'a option \<Rightarrow> 'a \<Rightarrow> 'a" where
  "keyword given dflt = (case given of None \<Rightarrow> dflt | Some v \<Rightarrow> v)"

definition from_file :: "(py_error + file_data) option \<Rightarrow> py_error + Config" where
  "from_file file =
     (case file of
        None \<Rightarrow> Inr Config_default
      | Some (Inl e) \<Rightarrow> Inl e
      | Some (Inr data) \<Rightarrow>
          Inr \<lparr>gateway_url = keyword (yaml_gateway_url data) (gateway_url Config_default),
                api_id = keyword (yaml_api_id data) (api_id Config_default),
                region = keyword (yaml_region data) (region Config_default),
                stage = keyword (yaml_stage data) (stage Config_default),
                path = keyword (yaml_path data) (path Config_default),
                aws_profile = keyword (yaml_aws_profile data) (aws_profile Config_default),
                model_map = keyword (yaml_model_map data) (model_map Config_default),
                verbose = keyword (yaml_verbose data) (verbose Config_default)\<rparr>)"

section \<open>client.py: the constructor\<close>

text \<open>
  The first part of \<^verbatim>\<open>BedrockClient.__init__\<close>. Each statement
  \<^verbatim>\<open>if cond: config.field = value\<close> is one \<open>assign_if\<close>. From the environment only
  \<^verbatim>\<open>gateway_url\<close>, \<^verbatim>\<open>api_id\<close>, \<^verbatim>\<open>region\<close> and \<^verbatim>\<open>aws_profile\<close> are merged.
  A \<^verbatim>\<open>config\<close> passed by the caller is used as it is.
\<close>

definition assign_if :: "bool \<Rightarrow> (Config \<Rightarrow> Config) \<Rightarrow> Config \<Rightarrow> Config" where
  "assign_if cond assignment config = (if cond then assignment config else config)"

definition init_config ::
  "string option \<Rightarrow> string option \<Rightarrow> string option \<Rightarrow> string option \<Rightarrow> Config option \<Rightarrow> bool \<Rightarrow>
   (string \<rightharpoonup> string) \<Rightarrow> (py_error + file_data) option \<Rightarrow> Config" where
  "init_config gateway_url_arg api_id_arg region_arg profile config_arg verbose_arg env file =
     (case config_arg of
        Some c \<Rightarrow> c
      | None \<Rightarrow>
          (let config = (case from_file file of Inl e \<Rightarrow> Config_default | Inr c \<Rightarrow> c);
               env_config = from_env env;
               config = assign_if (truthy (gateway_url env_config))
                          (\<lambda>c. c\<lparr>gateway_url := gateway_url env_config\<rparr>) config;
               config = assign_if (truthy (api_id env_config))
                          (\<lambda>c. c\<lparr>api_id := api_id env_config\<rparr>) config;
               config = assign_if (region env_config \<noteq> ''us-east-1'')
                          (\<lambda>c. c\<lparr>region := region env_config\<rparr>) config;
               config = assign_if (truthy (aws_profile env_config))
                          (\<lambda>c. c\<lparr>aws_profile := aws_profile env_config\<rparr>) config;
               config = assign_if (truthy gateway_url_arg)
                          (\<lambda>c. c\<lparr>gateway_url := gateway_url_arg\<rparr>) config;
               config = assign_if (truthy api_id_arg) (\<lambda>c. c\<lparr>api_id := api_id_arg\<rparr>) config;
               config = assign_if (truthy region_arg) (\<lambda>c. c\<lparr>region := the region_arg\<rparr>) config;
               config = assign_if (truthy profile) (\<lambda>c. c\<lparr>aws_profile := profile\<rparr>) config;
               config = assign_if verbose_arg (\<lambda>c. c\<lparr>verbose := verbose_arg\<rparr>) config
           in config))"

text \<open>
  The persisted configuration the constructor starts from: a failure to read it is
  swallowed.
\<close>

definition persisted :: "(py_error + file_data) option \<Rightarrow> Config" where
  "persisted file = (case from_file file of Inl e \<Rightarrow> Config_default | Inr c \<Rightarrow> c)"

text \<open>
  The endpoint the constructor stores: \<^verbatim>\<open>self.gateway_url\<close> and \<^verbatim>\<open>self.host\<close>.
\<close>

record ResolvedEndpoint =
  url :: string
  host :: string

definition configuration_options :: string where
  "configuration_options =
     [CHR 0x0A, CHR 0x0A] @ ''Configuration options:'' @ [CHR 0x0A] @
     ''1. Pass gateway_url or api_id to constructor'' @ [CHR 0x0A] @
     ''2. Set BEDROCK_GATEWAY_URL or BEDROCK_GATEWAY_API_ID environment variable'' @ [CHR 0x0A] @
     ''3. Create config file: ~/.bedrock-gateway/config.yaml'' @ [CHR 0x0A]"

text \<open>
  The \<^verbatim>\<open>try\<close> block of \<^verbatim>\<open>BedrockClient.__init__\<close>: both calls are inside it, and
  every \<^verbatim>\<open>ValueError\<close> of either is raised again with the guidance appended. Other
  exceptions pass through.
\<close>

definition reraise :: "py_error \<Rightarrow> py_error" where
  "reraise e = (case e of ValueError m \<Rightarrow> ValueError (m @ configuration_options) | _ \<Rightarrow> e)"

definition init_endpoint :: "(string \<Rightarrow> py_error + string) \<Rightarrow> Config \<Rightarrow> py_error + ResolvedEndpoint" where
  "init_endpoint urlparse config =
     (case get_full_url config of
        Inl e \<Rightarrow> Inl (reraise e)
      | Inr u \<Rightarrow>
          (case get_host urlparse config of
             Inl e \<Rightarrow> Inl (reraise e)
           | Inr h \<Rightarrow> Inr \<lparr>url = u, host = h\<rparr>))"

section \<open>client.py: values parsed from JSON\<close>

text \<open>
  The parsed response is dynamically typed, so each operation of the source is defined on
  every JSON value, with the exception Python raises on the wrong type:
  \<^verbatim>\<open>k in x\<close> is key membership on a dict, element membership on a list, a substring
  test on a string and a \<^verbatim>\<open>TypeError\<close> elsewhere; \<^verbatim>\<open>x[k]\<close> with a string key is
  defined on dicts only; \<^verbatim>\<open>x.get(k, d)\<close> exists on dicts only; iteration runs over
  the elements of a list, the keys of a dict and the characters of a string.
  An object is an association list read with \<open>map_of\<close>.
\<close>

fun contains_str :: "string \<Rightarrow> string \<Rightarrow> bool" where
  "contains_str k [] = (k = [])"
| "contains_str k (c # s) = (take (length k) (c # s) = k \<or> contains_str k s)"

definition py_contains :: "string \<Rightarrow> json \<Rightarrow> py_error + bool" where
  "py_contains k x =
     (case x of
        JObj kvs \<Rightarrow> Inr (map_of kvs k \<noteq> None)
      | JArr xs \<Rightarrow> Inr (JStr k \<in> set xs)
      | JStr s \<Rightarrow> Inr (contains_str k s)
      | _ \<Rightarrow> Inl TypeError)"

definition py_getitem :: "json \<Rightarrow> string \<Rightarrow> py_error + json" where
  "py_getitem x k =
     (case x of
        JObj kvs \<Rightarrow> (case map_of kvs k of None \<Rightarrow> Inl KeyError | Some v \<Rightarrow> Inr v)
      | _ \<Rightarrow> Inl TypeError)"

definition py_get :: "json \<Rightarrow> string \<Rightarrow> json \<Rightarrow> py_error + json" where
  "py_get x k d =
     (case x of
        JObj kvs \<Rightarrow> Inr (case map_of kvs k of None \<Rightarrow> d | Some v \<Rightarrow> v)
      | _ \<Rightarrow> Inl AttributeError)"

definition py_iter :: "json \<Rightarrow> py_error + json list" where
  "py_iter x =
     (case x of
        JArr xs \<Rightarrow> Inr xs
      | JObj kvs \<Rightarrow> Inr (map (\<lambda>kv. JStr (fst kv)) kvs)
      | JStr s \<Rightarrow> Inr (map (\<lambda>c. JStr [c]) s)
      | _ \<Rightarrow> Inl TypeError)"

section \<open>client.py: normalising the response\<close>

text \<open>
  The dataclass has no run-time type checks: the usage figures, the request id and the stop
  reason are whatever values the response holds. Only \<^verbatim>\<open>text\<close> is certainly a string.
\<close>

record BedrockResponse =
  "text" :: string
  tokens :: json
  input_tokens :: json
  output_tokens :: json
  latency_ms :: json
  request_id :: json
  model :: string
  stop_reason :: json
  raw_response :: json

text \<open>
  The loop over the content blocks: \<^verbatim>\<open>if 'text' in content_block: text += content_block['text']\<close>.
  Appending anything but a string to a string raises \<^verbatim>\<open>TypeError\<close>.
\<close>

fun append_texts :: "string \<Rightarrow> json list \<Rightarrow> py_error + string" where
  "append_texts acc [] = Inr acc"
| "append_texts acc (content_block # rest) =
     (case py_contains ''text'' content_block of
        Inl e \<Rightarrow> Inl e
      | Inr False \<Rightarrow> append_texts acc rest
      | Inr True \<Rightarrow>
          (case py_getitem content_block ''text'' of
             Inl e \<Rightarrow> Inl e
           | Inr (JStr s) \<Rightarrow> append_texts (acc @ s) rest
           | Inr _ \<Rightarrow> Inl TypeError))"

definition extract_text :: "json \<Rightarrow> py_error + string" where
  "extract_text bedrock_response =
     bind (py_contains ''output'' bedrock_response) (\<lambda>has_output.
       if \<not> has_output then Inr ''''
       else
         bind (py_getitem bedrock_response ''output'') (\<lambda>output.
         bind (py_contains ''message'' output) (\<lambda>has_message.
           if \<not> has_message then Inr ''''
           else
             bind (py_getitem output ''message'') (\<lambda>message.
             bind (py_contains ''content'' message) (\<lambda>has_content.
               if \<not> has_content then Inr ''''
               else
                 bind (py_getitem message ''content'') (\<lambda>content.
                 bind (py_iter content) (append_texts '''')))))))"

text \<open>
  The gateway envelope: \<^verbatim>\<open>if 'body' in result and isinstance(result['body'], str)\<close>
  the inner response is \<^verbatim>\<open>json.loads(result['body'])\<close>, else the envelope itself.
  The JSON parser is a parameter \<open>loads\<close>; \<open>None\<close> stands for its decode error.
\<close>

definition unwrap :: "(string \<Rightarrow> json option) \<Rightarrow> json \<Rightarrow> py_error + json" where
  "unwrap loads result =
     bind (py_contains ''body'' result) (\<lambda>has_body.
       if \<not> has_body then Inr result
       else
         bind (py_getitem result ''body'') (\<lambda>b.
           case b of
             JStr s \<Rightarrow> (case loads s of None \<Rightarrow> Inl JSONDecodeError | Some v \<Rightarrow> Inr v)
           | _ \<Rightarrow> Inr result))"

text \<open>
  The error path: the detail starts as the raw text; inside \<^verbatim>\<open>try\<close> the body is
  parsed and \<^verbatim>\<open>error_json.get('error', error_detail)\<close> replaces it; the bare
  \<^verbatim>\<open>except: pass\<close> swallows every exception of the two steps.
\<close>

definition error_detail :: "(string \<Rightarrow> json option) \<Rightarrow> string \<Rightarrow> json" where
  "error_detail loads response_text =
     (case loads response_text of
        None \<Rightarrow> JStr response_text
      | Some error_json \<Rightarrow>
          (case py_get error_json ''error'' (JStr response_text) of
             Inl e \<Rightarrow> JStr response_text
           | Inr d \<Rightarrow> d))"

text \<open>
  \<^verbatim>\<open>_send_request\<close> from the point where the transport has returned: its inputs are the
  status code and the body text of the HTTP response and the alias the caller asked for.
\<close>

definition send_request ::
  "(string \<Rightarrow> json option) \<Rightarrow> int \<Rightarrow> string \<Rightarrow> string \<Rightarrow> py_error + BedrockResponse" where
  "send_request loads status_code response_text model_alias =
     (if status_code \<noteq> 200 then Inl (Exception status_code (error_detail loads response_text))
      else
        (case loads response_text of
           None \<Rightarrow> Inl JSONDecodeError
         | Some result \<Rightarrow>
             bind (unwrap loads result) (\<lambda>bedrock_response.
             bind (extract_text bedrock_response) (\<lambda>extracted.
             bind (py_get bedrock_response ''usage'' (JObj [])) (\<lambda>usage.
             bind (py_get bedrock_response ''metrics'' (JObj [])) (\<lambda>metrics.
             bind (py_get usage ''totalTokens'' (JInt 0)) (\<lambda>total.
             bind (py_get usage ''inputTokens'' (JInt 0)) (\<lambda>inp.
             bind (py_get usage ''outputTokens'' (JInt 0)) (\<lambda>outp.
             bind (py_get metrics ''latencyMs'' (JInt 0)) (\<lambda>latency.
             bind (py_get result ''headers'' (JObj [])) (\<lambda>headers.
             bind (py_get headers ''X-Request-ID'' (JStr ''unknown'')) (\<lambda>rid.
             bind (py_get bedrock_response ''stopReason'' (JStr ''unknown'')) (\<lambda>stop.
               Inr \<lparr>text = extracted, tokens = total, input_tokens = inp, output_tokens = outp,
                     latency_ms = latency, request_id = rid, model = model_alias,
                     stop_reason = stop, raw_response = bedrock_response\<rparr>)))))))))))))"

section \<open>client.py: building the request\<close>

text \<open>
  The payload of \<^verbatim>\<open>chat\<close>, a dictionary in insertion order. A missing or empty history
  adds no messages; \<^verbatim>\<open>temperature\<close> and \<^verbatim>\<open>top_p\<close> are included when they are not
  \<^verbatim>\<open>None\<close>; \<^verbatim>\<open>system\<close> is included when it is a non-empty string. The model identifier
  is \<^verbatim>\<open>self.config.model_map.get(model, model)\<close>.
\<close>

definition chat_payload ::
  "Config \<Rightarrow> string \<Rightarrow> string \<Rightarrow> int \<Rightarrow> json option \<Rightarrow> json option \<Rightarrow> string option \<Rightarrow>
   json list option \<Rightarrow> json" where
  "chat_payload config message model_alias max_tokens temperature top_p system
       conversation_history =
     (let messages =
            (case conversation_history of None \<Rightarrow> [] | Some history \<Rightarrow> history) @
            [JObj [(''role'', JStr ''user''),
                   (''content'', JArr [JObj [(''text'', JStr message)]])]];
          inference_config =
            [(''maxTokens'', JInt max_tokens)] @
            (case temperature of None \<Rightarrow> [] | Some t \<Rightarrow> [(''temperature'', t)]) @
            (case top_p of None \<Rightarrow> [] | Some p \<Rightarrow> [(''topP'', p)]);
          model_id = (case model_map config model_alias of None \<Rightarrow> model_alias | Some m \<Rightarrow> m);
          payload = [(''messages'', JArr messages), (''model'', JStr model_id),
                     (''inferenceConfig'', JObj inference_config)]
      in JObj (payload @
               (if truthy system then [(''system'', JArr [JObj [(''text'', JStr (the system))]])]
                else [])))"

text \<open>
  \<^verbatim>\<open>chat\<close> sends the payload and normalises the response. Signing and the network are
  the transport \<open>post\<close>, which returns the status code and the body text.
\<close>

definition chat ::
  "(string \<Rightarrow> json option) \<Rightarrow> (json \<Rightarrow> int \<times> string) \<Rightarrow> Config \<Rightarrow> string \<Rightarrow> string \<Rightarrow> int \<Rightarrow>
   json option \<Rightarrow> json option \<Rightarrow> string option \<Rightarrow> json list option \<Rightarrow> py_error + BedrockResponse" where
  "chat loads post config message model_alias max_tokens temperature top_p system
       conversation_history =
     (let payload = chat_payload config message model_alias max_tokens temperature top_p system
                      conversation_history;
          response = post payload
      in send_request loads (fst response) (snd response) model_alias)"

subsection \<open>Reading a parsed response as the specification does\<close>

text \<open>
  The specification speaks of fields of objects: \<open>field j k\<close> is the value of key \<open>k\<close>
  when \<open>j\<close> is an object that has it, and \<open>path_lookup\<close> follows a chain of keys.
\<close>

definition field :: "json \<Rightarrow> string \<Rightarrow> json option" where
  "field j k = (case j of JObj kvs \<Rightarrow> map_of kvs k | _ \<Rightarrow> None)"

fun path_lookup :: "json \<Rightarrow> string list \<Rightarrow> json option" where
  "path_lookup j [] = Some j"
| "path_lookup j (k # ks) = (case field j k of None \<Rightarrow> None | Some v \<Rightarrow> path_lookup v ks)"

text \<open>
  The inner response as the specification describes it: the parse of the envelope's
  \<^verbatim>\<open>body\<close> field when that field is a string, the envelope itself otherwise.
\<close>

definition spec_inner :: "(string \<Rightarrow> json option) \<Rightarrow> json \<Rightarrow> json option" where
  "spec_inner loads envelope =
     (case field envelope ''body'' of Some (JStr s) \<Rightarrow> loads s | _ \<Rightarrow> Some envelope)"

text \<open>
  The text as the specification describes it: the concatenation, in order, of the
  \<^verbatim>\<open>text\<close> field of every block of \<^verbatim>\<open>inner.output.message.content\<close>; a block without
  one contributes nothing, and a missing object on the way leaves no blocks.
\<close>

definition block_text :: "json \<Rightarrow> string" where
  "block_text b = (case field b ''text'' of Some (JStr s) \<Rightarrow> s | _ \<Rightarrow> [])"

definition content_blocks :: "json \<Rightarrow> json list" where
  "content_blocks inner =
     (case path_lookup inner [''output'', ''message'', ''content''] of
        Some (JArr bs) \<Rightarrow> bs | _ \<Rightarrow> [])"

definition spec_text :: "json \<Rightarrow> string" where
  "spec_text inner = concat (map block_text (content_blocks inner))"

text \<open>The value at a chain of keys, or a default when a step of the chain is absent.\<close>

definition lookup_default :: "json \<Rightarrow> string list \<Rightarrow> json \<Rightarrow> json" where
  "lookup_default j ks d = (case path_lookup j ks of None \<Rightarrow> d | Some v \<Rightarrow> v)"

text \<open>
  The shape the specification's data model gives a response: the envelope and the inner
  response are objects, and each of \<^verbatim>\<open>headers\<close>, \<^verbatim>\<open>usage\<close>, \<^verbatim>\<open>metrics\<close>,
  \<^verbatim>\<open>output\<close>, \<^verbatim>\<open>message\<close> is an object where it is present; \<^verbatim>\<open>content\<close>, where
  present, is a list of objects whose \<^verbatim>\<open>text\<close>, where present, is a string.
  Any of them may be absent.
\<close>

definition is_obj :: "json \<Rightarrow> bool" where
  "is_obj j = (case j of JObj kvs \<Rightarrow> True | _ \<Rightarrow> False)"

definition obj_or_absent :: "json option \<Rightarrow> bool" where
  "obj_or_absent x = (case x of None \<Rightarrow> True | Some j \<Rightarrow> is_obj j)"

definition block_shape :: "json \<Rightarrow> bool" where
  "block_shape b =
     (is_obj b \<and> (case field b ''text'' of None \<Rightarrow> True | Some (JStr s) \<Rightarrow> True | Some _ \<Rightarrow> False))"

definition content_shape :: "json \<Rightarrow> bool" where
  "content_shape inner =
     (case field inner ''output'' of
        None \<Rightarrow> True
      | Some output \<Rightarrow>
          is_obj output \<and>
          (case field output ''message'' of
             None \<Rightarrow> True
           | Some message \<Rightarrow>
               is_obj message \<and>
               (case field message ''content'' of
                  None \<Rightarrow> True
                | Some (JArr bs) \<Rightarrow> list_all block_shape bs
                | Some _ \<Rightarrow> False)))"

definition response_shape :: "json \<Rightarrow> json \<Rightarrow> bool" where
  "response_shape envelope inner =
     (is_obj envelope \<and> obj_or_absent (field envelope ''headers'') \<and>
      is_obj inner \<and> content_shape inner \<and>
      obj_or_absent (field inner ''usage'') \<and> obj_or_absent (field inner ''metrics''))"

subsection \<open>Concrete configurations\<close>

definition example_both :: Config where
  "example_both =
     Config_default\<lparr>gateway_url := Some ''https://x.example.com/prod/invoke'',
                    api_id := Some ''abc123''\<rparr>"

definition example_bracket :: Config where
  "example_bracket = Config_default\<lparr>gateway_url := Some ''https://[::1/invoke''\<rparr>"

definition stage_env :: "string \<rightharpoonup> string" where
  "stage_env = [''BEDROCK_GATEWAY_STAGE'' \<mapsto> ''dev'', ''BEDROCK_GATEWAY_API_ID'' \<mapsto> ''abc123'']"

subsection \<open>Concrete responses\<close>

text \<open>
  Response texts and the values \<^verbatim>\<open>json.loads\<close> gives for them. \<open>example_loads\<close> is the
  parser on the texts used below; every other text is rejected by it.
  \<open>escape_quotes\<close> writes a text as the content of a JSON string.
\<close>

definition escape_quotes :: "string \<Rightarrow> string" where
  "escape_quotes s = concat (map (\<lambda>c. if c = CHR 0x22 then [CHR 0x5C, CHR 0x22] else [c]) s)"

definition inner_text :: string where
  \<open>inner_text = ''{"output":{"message":{"content":[{"text":"hi"},{"toolUse":{}},{"text":" there"}]}},"usage":{"totalTokens":5},"stopReason":"end_turn","headers":{"X-Request-ID":"inner-2"}}''\<close>

definition inner_value :: json where
  "inner_value =
     JObj [(''output'', JObj [(''message'', JObj [(''content'',
              JArr [JObj [(''text'', JStr ''hi'')], JObj [(''toolUse'', JObj [])],
                    JObj [(''text'', JStr '' there'')]])])]),
           (''usage'', JObj [(''totalTokens'', JInt 5)]),
           (''stopReason'', JStr ''end_turn''),
           (''headers'', JObj [(''X-Request-ID'', JStr ''inner-2'')])]"

definition envelope_text :: string where
  \<open>envelope_text = ''{"headers":{"X-Request-ID":"outer-1"},"body":"'' @ escape_quotes inner_text @ ''"}''\<close>

definition envelope_value :: json where
  "envelope_value =
     JObj [(''headers'', JObj [(''X-Request-ID'', JStr ''outer-1'')]), (''body'', JStr inner_text)]"

definition error_text :: string where
  \<open>error_text = ''{"error":"forbidden"}''\<close>

definition broken_envelope_text :: string where
  \<open>broken_envelope_text = ''{"body":"not json"}''\<close>

definition example_loads :: "string \<Rightarrow> json option" where
  "example_loads = map_of
     [(''{}'', JObj []),
      (error_text, JObj [(''error'', JStr ''forbidden'')]),
      (broken_envelope_text, JObj [(''body'', JStr ''not json'')]),
      (inner_text, inner_value),
      (envelope_text, envelope_value)]"

text \<open>
  Further response texts, with their own table \<open>edge_loads\<close>: an envelope whose
  \<^verbatim>\<open>body\<close> holds a list, a response whose \<^verbatim>\<open>usage\<close> is \<^verbatim>\<open>null\<close>, a response whose
  content has a string among its blocks, and a response with fields missing at depth.
\<close>

definition body_list_text :: string where
  \<open>body_list_text = ''{"body":"[]"}''\<close>

definition usage_null_text :: string where
  \<open>usage_null_text = ''{"usage":null}''\<close>

definition loose_text :: string where
  \<open>loose_text = ''{"output":{"message":{"content":["tex",{"text":"ok"}]}}}''\<close>

definition loose_value :: json where
  "loose_value =
     JObj [(''output'', JObj [(''message'', JObj [(''content'',
              JArr [JStr ''tex'', JObj [(''text'', JStr ''ok'')]])])])]"

definition depth_text :: string where
  \<open>depth_text = ''{"output":{"message":{}},"usage":{"inputTokens":3},"metrics":{}}''\<close>

definition depth_value :: json where
  "depth_value =
     JObj [(''output'', JObj [(''message'', JObj [])]),
           (''usage'', JObj [(''inputTokens'', JInt 3)]),
           (''metrics'', JObj [])]"

definition edge_loads :: "string \<Rightarrow> json option" where
  "edge_loads = map_of
     [(''[]'', JArr []),
      (body_list_text, JObj [(''body'', JStr ''[]'')]),
      (usage_null_text, JObj [(''usage'', JNull)]),
      (loose_text, loose_value),
      (depth_text, depth_value)]"

section \<open>Endpoint resolution: theorems\<close>

text \<open>
  C7. With \<^verbatim>\<open>gateway_url\<close> unset and \<^verbatim>\<open>api_id\<close> set, resolution yields the URL
  \<^verbatim>\<open>https://{api_id}.execute-api.{region}.amazonaws.com/{stage}{path}\<close> and the host
  \<^verbatim>\<open>{api_id}.execute-api.{region}.amazonaws.com\<close>, whatever the URL parser does.
\<close>

theorem derived_endpoint:
  assumes "\<not> truthy (gateway_url config)" and "api_id config = Some a" and "a \<noteq> []"
  shows "init_endpoint urlparse config =
           Inr \<lparr>url = ''https://'' @ a @ ''.execute-api.'' @ region config @
                       ''.amazonaws.com/'' @ stage config @ path config,
                 host = a @ ''.execute-api.'' @ region config @ ''.amazonaws.com''\<rparr>"
  using assms by (simp add: init_endpoint_def get_full_url_def get_host_def truthy_def format_opt_def)

theorem derived_endpoint_witness:
  "init_endpoint urlparse_netloc
     (Config_default\<lparr>api_id := Some ''abc123'', region := ''ap-southeast-2''\<rparr>) =
   Inr \<lparr>url = ''https://abc123.execute-api.ap-southeast-2.amazonaws.com/prod/invoke'',
         host = ''abc123.execute-api.ap-southeast-2.amazonaws.com''\<rparr>"
  using derived_endpoint [of "Config_default\<lparr>api_id := Some ''abc123'', region := ''ap-southeast-2''\<rparr>"
      "''abc123''" urlparse_netloc]
  by (simp add: Config_default_def truthy_def)

lemma netloc_example: "urlparse_netloc ''https://x.example.com/prod/invoke'' = Inr ''x.example.com''"
  by (simp add: urlparse_netloc_def strip_scheme_def isalpha_def scheme_chars_def)

lemma netloc_bracket: "urlparse_netloc ''https://[::1/invoke'' = Inl (ValueError ''Invalid IPv6 URL'')"
  by (simp add: urlparse_netloc_def strip_scheme_def isalpha_def scheme_chars_def)

text \<open>
  C1, as the code has it. With both \<^verbatim>\<open>gateway_url\<close> and \<^verbatim>\<open>api_id\<close> set, the URL is
  the \<^verbatim>\<open>gateway_url\<close> verbatim, and the host is the form derived from \<^verbatim>\<open>api_id\<close> and
  the region: \<^verbatim>\<open>get_host\<close> tests \<^verbatim>\<open>api_id\<close> first and never parses the URL then.
\<close>

theorem both_set_endpoint:
  assumes "gateway_url config = Some g" and "g \<noteq> []" and "api_id config = Some a" and "a \<noteq> []"
  shows "init_endpoint urlparse config =
           Inr \<lparr>url = g, host = a @ ''.execute-api.'' @ region config @ ''.amazonaws.com''\<rparr>"
  using assms by (simp add: init_endpoint_def get_full_url_def get_host_def truthy_def format_opt_def)

theorem both_set_endpoint_witness:
  "init_endpoint urlparse_netloc example_both =
     Inr \<lparr>url = ''https://x.example.com/prod/invoke'',
           host = ''abc123.execute-api.us-east-1.amazonaws.com''\<rparr>"
  using both_set_endpoint [of example_both "''https://x.example.com/prod/invoke''" "''abc123''"
      urlparse_netloc]
  by (simp add: example_both_def Config_default_def)

lemma gateway_only_host:
  assumes "gateway_url config = Some g" and "\<not> truthy (api_id config)"
  shows "get_host urlparse config = urlparse g"
  using assms by (simp add: get_host_def)

text \<open>
  C1 as stated fails: at \<open>example_both\<close> both fields are set, the authority of the
  \<^verbatim>\<open>gateway_url\<close> is \<^verbatim>\<open>x.example.com\<close>, and the resolved host is not that authority.
\<close>

theorem both_set_host_counterexample:
  "truthy (gateway_url example_both) \<and> truthy (api_id example_both) \<and>
   urlparse_netloc (the (gateway_url example_both)) = Inr ''x.example.com'' \<and>
   init_endpoint urlparse_netloc example_both \<noteq>
     Inr \<lparr>url = the (gateway_url example_both), host = ''x.example.com''\<rparr>"
  by (simp add: example_both_def Config_default_def truthy_def netloc_example init_endpoint_def
      get_full_url_def get_host_def format_opt_def)

text \<open>
  C8, as the code has it. Resolution raises the \<^verbatim>\<open>ValueError\<close> of the constructor
  exactly when neither field is set, or \<^verbatim>\<open>api_id\<close> is unset and the URL parser raises
  \<^verbatim>\<open>ValueError\<close> on the \<^verbatim>\<open>gateway_url\<close>. It returns an endpoint exactly when \<^verbatim>\<open>api_id\<close>
  is set, or \<^verbatim>\<open>gateway_url\<close> is set and the parser returns its authority.
\<close>

theorem init_endpoint_fails_iff:
  "((\<exists>m. init_endpoint urlparse config = Inl (ValueError m)) \<longleftrightarrow>
      (\<not> truthy (gateway_url config) \<and> \<not> truthy (api_id config)) \<or>
      (truthy (gateway_url config) \<and> \<not> truthy (api_id config) \<and>
         (\<exists>m. urlparse (the (gateway_url config)) = Inl (ValueError m)))) \<and>
   ((\<exists>ep. init_endpoint urlparse config = Inr ep) \<longleftrightarrow>
      truthy (api_id config) \<or>
      (truthy (gateway_url config) \<and> (\<exists>h. urlparse (the (gateway_url config)) = Inr h)))"
  by (cases "gateway_url config"; cases "api_id config"; cases "urlparse (the (gateway_url config))")
     (auto simp add: init_endpoint_def get_full_url_def get_host_def truthy_def reraise_def
           split: py_error.splits sum.splits)

theorem init_endpoint_fails_iff_witness:
  "(\<exists>m. init_endpoint urlparse_netloc Config_default = Inl (ValueError m)) \<and>
   (\<exists>ep. init_endpoint urlparse_netloc example_both = Inr ep)"
  using init_endpoint_fails_iff [of urlparse_netloc Config_default]
        init_endpoint_fails_iff [of urlparse_netloc example_both]
  by (simp add: example_both_def Config_default_def truthy_def)

text \<open>
  C8 as stated fails: at \<open>example_bracket\<close> the \<^verbatim>\<open>gateway_url\<close> is set, and resolution
  raises the \<^verbatim>\<open>ValueError\<close> with the configuration guidance all the same, since
  \<^verbatim>\<open>get_host\<close> is inside the \<^verbatim>\<open>try\<close> block and the URL parser rejects the authority.
\<close>

theorem gateway_url_set_fails_counterexample:
  "truthy (gateway_url example_bracket) \<and>
   init_endpoint urlparse_netloc example_bracket =
     Inl (ValueError (''Invalid IPv6 URL'' @ configuration_options))"
  by (simp add: example_bracket_def Config_default_def truthy_def netloc_bracket init_endpoint_def
      get_full_url_def get_host_def reraise_def)

section \<open>Response normalisation: theorems\<close>

lemma bind_Inl: "bind m f = Inl e \<longleftrightarrow> m = Inl e \<or> (\<exists>x. m = Inr x \<and> f x = Inl e)"
  by (cases m) (simp_all add: bind_def)

lemma bind_Inr [simp]: "bind (Inr x) f = f x"
  by (simp add: bind_def)

lemma bind_Inl_simp [simp]: "bind (Inl e) f = Inl e"
  by (simp add: bind_def)

lemma py_contains_no_gateway: "py_contains k x \<noteq> Inl (Exception s d)"
  by (simp add: py_contains_def split: json.splits)

lemma py_getitem_no_gateway: "py_getitem x k \<noteq> Inl (Exception s d)"
  by (simp add: py_getitem_def split: json.splits option.splits)

lemma py_get_no_gateway: "py_get x k v \<noteq> Inl (Exception s d)"
  by (simp add: py_get_def split: json.splits)

lemma py_iter_no_gateway: "py_iter x \<noteq> Inl (Exception s d)"
  by (simp add: py_iter_def split: json.splits)

lemma append_texts_no_gateway: "append_texts acc bs \<noteq> Inl (Exception s d)"
proof (induction bs arbitrary: acc)
  case Nil
  show ?case by simp
next
  case (Cons b bs)
  show ?case
    using Cons.IH py_contains_no_gateway [of "''text''" b s d] py_getitem_no_gateway [of b "''text''" s d]
    by (auto split: sum.splits bool.splits json.splits)
qed

lemma extract_text_no_gateway: "extract_text br \<noteq> Inl (Exception s d)"
  unfolding extract_text_def
  by (auto simp add: bind_Inl py_contains_no_gateway py_getitem_no_gateway py_iter_no_gateway
      append_texts_no_gateway)

lemma unwrap_no_gateway: "unwrap loads result \<noteq> Inl (Exception s d)"
  unfolding unwrap_def
  by (auto simp add: bind_Inl py_contains_no_gateway py_getitem_no_gateway split: json.splits option.splits)

lemma error_detail_eq:
  "error_detail loads body =
     (case loads body of
        None \<Rightarrow> JStr body
      | Some j \<Rightarrow> (case field j ''error'' of None \<Rightarrow> JStr body | Some v \<Rightarrow> v))"
  by (simp add: error_detail_def py_get_def field_def split: option.splits json.splits)

text \<open>
  C3. For every status code other than 200 and every body, normalisation raises the gateway
  exception with that status code and a detail: the value of the \<^verbatim>\<open>error\<close> field when the
  body parses to a JSON object that has one, and the raw body text otherwise. With status
  200 the gateway exception is never raised.
\<close>

theorem gateway_error:
  "(status_code \<noteq> 200 \<longrightarrow>
      send_request loads status_code body model_alias =
        Inl (Exception status_code
              (case loads body of
                 None \<Rightarrow> JStr body
               | Some j \<Rightarrow> (case field j ''error'' of None \<Rightarrow> JStr body | Some v \<Rightarrow> v)))) \<and>
   send_request loads 200 body model_alias \<noteq> Inl (Exception s d)"
proof (rule conjI)
  show "status_code \<noteq> 200 \<longrightarrow>
      send_request loads status_code body model_alias =
        Inl (Exception status_code
              (case loads body of
                 None \<Rightarrow> JStr body
               | Some j \<Rightarrow> (case field j ''error'' of None \<Rightarrow> JStr body | Some v \<Rightarrow> v)))"
    by (simp add: send_request_def error_detail_eq)
next
  show "send_request loads 200 body model_alias \<noteq> Inl (Exception s d)"
  proof (cases "loads body")
    case None
    then show ?thesis by (simp add: send_request_def)
  next
    case (Some result)
    then show ?thesis
      by (simp add: send_request_def bind_Inl unwrap_no_gateway extract_text_no_gateway
          py_get_no_gateway)
  qed
qed

subsection \<open>The concrete parser on its texts\<close>


lemma loads_error: "example_loads error_text = Some (JObj [(''error'', JStr ''forbidden'')])"
  by (simp add: example_loads_def error_text_def)

lemma loads_failure: "example_loads ''internal failure'' = None"
  by (simp add: example_loads_def error_text_def broken_envelope_text_def inner_text_def
      envelope_text_def)

lemma loads_not_json: "example_loads ''not json'' = None"
  by (simp add: example_loads_def error_text_def broken_envelope_text_def inner_text_def
      envelope_text_def)

lemma loads_broken:
  "example_loads broken_envelope_text = Some (JObj [(''body'', JStr ''not json'')])"
  by (simp add: example_loads_def error_text_def broken_envelope_text_def)

lemma loads_inner: "example_loads inner_text = Some inner_value"
  by (simp add: example_loads_def error_text_def broken_envelope_text_def inner_text_def)

lemma loads_envelope: "example_loads envelope_text = Some envelope_value"
  by (simp add: example_loads_def error_text_def broken_envelope_text_def inner_text_def
      envelope_text_def)

lemma inner_of_envelope: "spec_inner example_loads envelope_value = Some inner_value"
  by (simp add: spec_inner_def envelope_value_def field_def loads_inner)


lemma shape_example: "response_shape envelope_value inner_value"
  by (simp add: response_shape_def envelope_value_def inner_value_def is_obj_def obj_or_absent_def
      field_def content_shape_def block_shape_def)


theorem gateway_error_witness:
  "send_request example_loads 403 error_text ''sonnet'' = Inl (Exception 403 (JStr ''forbidden'')) \<and>
   send_request example_loads 500 ''internal failure'' ''sonnet'' =
     Inl (Exception 500 (JStr ''internal failure''))"
  using gateway_error [of 403 example_loads error_text "''sonnet''"]
        gateway_error [of 500 example_loads "''internal failure''" "''sonnet''"]
  by (simp add: loads_error loads_failure field_def)

subsection \<open>Well-shaped responses\<close>

lemma is_objE: "is_obj j \<Longrightarrow> \<exists>kvs. j = JObj kvs"
  by (cases j) (simp_all add: is_obj_def)

lemma py_get_obj: "is_obj j \<Longrightarrow> py_get j k d = Inr (case field j k of None \<Rightarrow> d | Some v \<Rightarrow> v)"
  by (auto dest!: is_objE simp add: py_get_def field_def)

lemma py_contains_obj: "is_obj j \<Longrightarrow> py_contains k j = Inr (field j k \<noteq> None)"
  by (auto dest!: is_objE simp add: py_contains_def field_def)

lemma py_getitem_obj: "field j k = Some v \<Longrightarrow> py_getitem j k = Inr v"
  by (cases j) (simp_all add: py_getitem_def field_def)

lemma field_empty [simp]: "field (JObj []) k = None"
  by (simp add: field_def)

lemma is_obj_empty [simp]: "is_obj (JObj [])"
  by (simp add: is_obj_def)

lemma py_get_nested:
  assumes "is_obj j" and "obj_or_absent (field j k1)"
  shows "\<exists>u. py_get j k1 (JObj []) = Inr u \<and> (\<forall>k2 d. py_get u k2 d = Inr (lookup_default j [k1, k2] d))"
proof (cases "field j k1")
  case None
  with assms show ?thesis
    by (simp add: py_get_obj lookup_default_def)
next
  case (Some u)
  with assms have "is_obj u" by (simp add: obj_or_absent_def)
  with Some assms show ?thesis
    by (simp add: py_get_obj lookup_default_def split: option.splits)
qed

lemma append_texts_shaped:
  "list_all block_shape bs \<Longrightarrow> append_texts acc bs = Inr (acc @ concat (map block_text bs))"
proof (induction bs arbitrary: acc)
  case Nil
  show ?case by simp
next
  case (Cons b bs)
  from Cons.prems have b: "block_shape b" and bs: "list_all block_shape bs" by simp_all
  from b have obj: "is_obj b" by (simp add: block_shape_def)
  show ?case
  proof (cases "field b ''text''")
    case None
    with obj Cons.IH [OF bs] show ?thesis
      by (simp add: py_contains_obj block_text_def)
  next
    case (Some v)
    with b obtain s where v: "v = JStr s"
      by (cases v) (simp_all add: block_shape_def)
    with Some obj Cons.IH [OF bs] show ?thesis
      by (simp add: py_contains_obj py_getitem_obj block_text_def)
  qed
qed

lemma extract_text_shaped:
  assumes "is_obj inner" and "content_shape inner"
  shows "extract_text inner = Inr (spec_text inner)"
proof (cases "field inner ''output''")
  case None
  with assms show ?thesis
    by (simp add: extract_text_def py_contains_obj spec_text_def content_blocks_def)
next
  case out: (Some ov)
  with assms have oo: "is_obj ov" by (simp add: content_shape_def)
  show ?thesis
  proof (cases "field ov ''message''")
    case None
    with assms out oo show ?thesis
      by (simp add: extract_text_def py_contains_obj py_getitem_obj spec_text_def content_blocks_def)
  next
    case msg: (Some mv)
    with assms out have om: "is_obj mv" by (simp add: content_shape_def)
    show ?thesis
    proof (cases "field mv ''content''")
      case None
      with assms out oo msg om show ?thesis
        by (simp add: extract_text_def py_contains_obj py_getitem_obj spec_text_def content_blocks_def)
    next
      case (Some cv)
      with assms out msg obtain bs where c: "cv = JArr bs" and sh: "list_all block_shape bs"
        by (cases cv) (simp_all add: content_shape_def)
      with Some assms out oo msg om show ?thesis
        by (simp add: extract_text_def py_contains_obj py_getitem_obj spec_text_def content_blocks_def
            py_iter_def append_texts_shaped)
    qed
  qed
qed

lemma unwrap_obj:
  "is_obj envelope \<Longrightarrow>
   unwrap loads envelope =
     (case spec_inner loads envelope of None \<Rightarrow> Inl JSONDecodeError | Some i \<Rightarrow> Inr i)"
  by (auto dest!: is_objE simp add: unwrap_def py_contains_def py_getitem_def field_def spec_inner_def
      split: option.splits json.splits)

text \<open>
  The whole result on a well-shaped response with status 200: normalisation succeeds, and
  every field is the value at its path or the default.
\<close>

lemma send_request_shaped:
  assumes parse: "loads body = Some envelope"
    and inner: "spec_inner loads envelope = Some inner"
    and shape: "response_shape envelope inner"
  shows "send_request loads 200 body model_alias =
           Inr \<lparr>text = spec_text inner,
                 tokens = lookup_default inner [''usage'', ''totalTokens''] (JInt 0),
                 input_tokens = lookup_default inner [''usage'', ''inputTokens''] (JInt 0),
                 output_tokens = lookup_default inner [''usage'', ''outputTokens''] (JInt 0),
                 latency_ms = lookup_default inner [''metrics'', ''latencyMs''] (JInt 0),
                 request_id = lookup_default envelope [''headers'', ''X-Request-ID''] (JStr ''unknown''),
                 model = model_alias,
                 stop_reason = lookup_default inner [''stopReason''] (JStr ''unknown''),
                 raw_response = inner\<rparr>"
proof -
  from shape have env: "is_obj envelope" and hdr: "obj_or_absent (field envelope ''headers'')"
    and io: "is_obj inner" and cs: "content_shape inner"
    and us: "obj_or_absent (field inner ''usage'')" and me: "obj_or_absent (field inner ''metrics'')"
    by (simp_all add: response_shape_def)
  have u: "unwrap loads envelope = Inr inner"
    using env inner by (simp add: unwrap_obj)
  have t: "extract_text inner = Inr (spec_text inner)"
    using io cs by (rule extract_text_shaped)
  obtain usage where usage: "py_get inner ''usage'' (JObj []) = Inr usage"
    and usage_get: "\<And>k d. py_get usage k d = Inr (lookup_default inner [''usage'', k] d)"
    using py_get_nested [OF io us] by blast
  obtain metrics where metrics: "py_get inner ''metrics'' (JObj []) = Inr metrics"
    and metrics_get: "\<And>k d. py_get metrics k d = Inr (lookup_default inner [''metrics'', k] d)"
    using py_get_nested [OF io me] by blast
  obtain headers where headers: "py_get envelope ''headers'' (JObj []) = Inr headers"
    and headers_get: "\<And>k d. py_get headers k d = Inr (lookup_default envelope [''headers'', k] d)"
    using py_get_nested [OF env hdr] by blast
  have stop: "py_get inner ''stopReason'' (JStr ''unknown'') =
                Inr (lookup_default inner [''stopReason''] (JStr ''unknown''))"
    using io by (simp add: py_get_obj lookup_default_def split: option.splits)
  show ?thesis
    by (simp add: send_request_def parse u t usage metrics headers usage_get metrics_get headers_get stop)
qed

subsection \<open>Every result of a normalisation\<close>

lemma bind_Inr_iff: "bind m f = Inr y \<longleftrightarrow> (\<exists>x. m = Inr x \<and> f x = Inr y)"
  by (cases m) simp_all

lemma py_get_twice:
  assumes "py_get j k1 (JObj []) = Inr h" and "py_get h k2 d = Inr v"
  shows "v = lookup_default j [k1, k2] d"
proof -
  from assms(1) obtain kvs where j: "j = JObj kvs"
    by (cases j) (simp_all add: py_get_def)
  from assms(2) obtain hs where h: "h = JObj hs"
    by (cases h) (simp_all add: py_get_def)
  from assms j h show ?thesis
    by (auto simp add: py_get_def lookup_default_def field_def split: option.splits)
qed

lemma py_contains_False: "py_contains k x = Inr False \<Longrightarrow> field x k = None"
  by (cases x) (simp_all add: py_contains_def field_def)

lemma py_getitem_field: "py_getitem x k = Inr v \<Longrightarrow> field x k = Some v"
  by (cases x) (simp_all add: py_getitem_def field_def split: option.splits)

lemma append_texts_result:
  "append_texts acc bs = Inr t \<Longrightarrow> t = acc @ concat (map block_text bs)"
proof (induction bs arbitrary: acc)
  case Nil
  then show ?case by simp
next
  case (Cons b bs)
  show ?case
  proof (cases "py_contains ''text'' b")
    case (Inl e)
    with Cons.prems show ?thesis by simp
  next
    case (Inr has)
    show ?thesis
    proof (cases has)
      case False
      with Inr have "field b ''text'' = None" by (simp add: py_contains_False)
      then have "block_text b = []" by (simp add: block_text_def)
      moreover from Cons.prems Inr False have "append_texts acc bs = Inr t" by simp
      ultimately show ?thesis using Cons.IH by simp
    next
      case True
      with Cons.prems Inr obtain s where g: "py_getitem b ''text'' = Inr (JStr s)"
        and rest: "append_texts (acc @ s) bs = Inr t"
        by (auto split: sum.splits json.splits)
      from g have "block_text b = s" by (simp add: py_getitem_field block_text_def)
      with Cons.IH [OF rest] show ?thesis by simp
    qed
  qed
qed

lemma block_text_JStr: "block_text (JStr s) = []"
  by (simp add: block_text_def field_def)

lemma iterate_result:
  assumes "py_iter c = Inr bs" and "append_texts [] bs = Inr t"
  shows "t = concat (map block_text (case c of JArr xs \<Rightarrow> xs | _ \<Rightarrow> []))"
proof -
  from append_texts_result [OF assms(2)] have t: "t = concat (map block_text bs)" by simp
  show ?thesis
  proof (cases c)
    case (JArr xs)
    with assms(1) t show ?thesis by (simp add: py_iter_def)
  next
    case (JObj kvs)
    with assms(1) have "bs = map (\<lambda>kv. JStr (fst kv)) kvs" by (simp add: py_iter_def)
    with t JObj show ?thesis by (simp add: block_text_JStr comp_def)
  next
    case (JStr s)
    with assms(1) have "bs = map (\<lambda>c. JStr [c]) s" by (simp add: py_iter_def)
    with t JStr show ?thesis by (simp add: block_text_JStr comp_def)
  qed (use assms(1) in \<open>simp_all add: py_iter_def\<close>)
qed

lemma extract_text_result:
  assumes "extract_text inner = Inr t"
  shows "t = spec_text inner"
proof (cases "py_contains ''output'' inner")
  case (Inl e)
  with assms show ?thesis by (simp add: extract_text_def)
next
  case ho: (Inr has_output)
  show ?thesis
  proof (cases has_output)
    case False
    with ho have "field inner ''output'' = None" by (simp add: py_contains_False)
    with assms ho False show ?thesis
      by (simp add: extract_text_def spec_text_def content_blocks_def)
  next
    case True
    with assms ho obtain ov where ov: "py_getitem inner ''output'' = Inr ov"
      by (cases "py_getitem inner ''output''") (simp_all add: extract_text_def)
    then have fo: "field inner ''output'' = Some ov" by (rule py_getitem_field)
    show ?thesis
    proof (cases "py_contains ''message'' ov")
      case (Inl e)
      with assms ho True ov show ?thesis by (simp add: extract_text_def)
    next
      case hm: (Inr has_message)
      show ?thesis
      proof (cases has_message)
        case False
        with hm have "field ov ''message'' = None" by (simp add: py_contains_False)
        with assms ho True ov hm False fo show ?thesis
          by (simp add: extract_text_def spec_text_def content_blocks_def)
      next
        case hmT: True
        with assms ho True ov hm obtain mv where mv: "py_getitem ov ''message'' = Inr mv"
          by (cases "py_getitem ov ''message''") (simp_all add: extract_text_def)
        then have fm: "field ov ''message'' = Some mv" by (rule py_getitem_field)
        show ?thesis
        proof (cases "py_contains ''content'' mv")
          case (Inl e)
          with assms ho True ov hm hmT mv show ?thesis by (simp add: extract_text_def)
        next
          case hc: (Inr has_content)
          show ?thesis
          proof (cases has_content)
            case False
            with hc have "field mv ''content'' = None" by (simp add: py_contains_False)
            with assms ho True ov hm hmT mv hc False fo fm show ?thesis
              by (simp add: extract_text_def spec_text_def content_blocks_def)
          next
            case hcT: True
            with assms ho True ov hm hmT mv hc obtain cv where cv: "py_getitem mv ''content'' = Inr cv"
              by (cases "py_getitem mv ''content''") (simp_all add: extract_text_def)
            then have fc: "field mv ''content'' = Some cv" by (rule py_getitem_field)
            from assms ho True ov hm hmT mv hc hcT cv obtain bs where
              it: "py_iter cv = Inr bs" and ap: "append_texts [] bs = Inr t"
              by (cases "py_iter cv") (simp_all add: extract_text_def)
            from iterate_result [OF it ap] fo fm fc show ?thesis
              by (simp add: spec_text_def content_blocks_def)
          qed
        qed
      qed
    qed
  qed
qed

lemma py_get_is_obj: "py_get j k d = Inr v \<Longrightarrow> is_obj j"
  by (cases j) (simp_all add: py_get_def is_obj_def)

lemma py_get_once: "py_get j k d = Inr v \<Longrightarrow> v = lookup_default j [k] d"
  by (cases j) (auto simp add: py_get_def lookup_default_def field_def split: option.splits)

lemma unwrap_result:
  assumes "unwrap loads envelope = Inr inner" and "is_obj envelope"
  shows "spec_inner loads envelope = Some inner"
  using assms by (simp add: unwrap_obj split: option.splits)

text \<open>
  Whatever the response looks like, when normalisation returns a result the envelope is an
  object, the inner response is the one the specification describes, and every field of
  the result is the value at its path or the default.
\<close>

lemma send_request_result:
  assumes "send_request loads status_code body model_alias = Inr r"
  shows "\<exists>envelope. loads body = Some envelope \<and> is_obj envelope \<and>
           spec_inner loads envelope = Some (raw_response r) \<and>
           text r = spec_text (raw_response r) \<and>
           tokens r = lookup_default (raw_response r) [''usage'', ''totalTokens''] (JInt 0) \<and>
           input_tokens r = lookup_default (raw_response r) [''usage'', ''inputTokens''] (JInt 0) \<and>
           output_tokens r = lookup_default (raw_response r) [''usage'', ''outputTokens''] (JInt 0) \<and>
           latency_ms r = lookup_default (raw_response r) [''metrics'', ''latencyMs''] (JInt 0) \<and>
           request_id r = lookup_default envelope [''headers'', ''X-Request-ID''] (JStr ''unknown'') \<and>
           stop_reason r = lookup_default (raw_response r) [''stopReason''] (JStr ''unknown'')"
proof -
  from assms have st: "status_code = 200"
    by (simp add: send_request_def split: if_splits)
  with assms obtain envelope where env: "loads body = Some envelope"
    by (cases "loads body") (simp_all add: send_request_def)
  from assms st env obtain usage metrics headers where
    u: "unwrap loads envelope = Inr (raw_response r)" and
    t: "extract_text (raw_response r) = Inr (text r)" and
    us: "py_get (raw_response r) ''usage'' (JObj []) = Inr usage" and
    me: "py_get (raw_response r) ''metrics'' (JObj []) = Inr metrics" and
    tot: "py_get usage ''totalTokens'' (JInt 0) = Inr (tokens r)" and
    inp: "py_get usage ''inputTokens'' (JInt 0) = Inr (input_tokens r)" and
    outp: "py_get usage ''outputTokens'' (JInt 0) = Inr (output_tokens r)" and
    lat: "py_get metrics ''latencyMs'' (JInt 0) = Inr (latency_ms r)" and
    h: "py_get envelope ''headers'' (JObj []) = Inr headers" and
    rid: "py_get headers ''X-Request-ID'' (JStr ''unknown'') = Inr (request_id r)" and
    stop: "py_get (raw_response r) ''stopReason'' (JStr ''unknown'') = Inr (stop_reason r)"
    by (auto simp add: send_request_def bind_Inr_iff)
  have obj: "is_obj envelope" using h by (rule py_get_is_obj)
  show ?thesis
    using env obj unwrap_result [OF u obj] extract_text_result [OF t]
      py_get_twice [OF us tot] py_get_twice [OF us inp] py_get_twice [OF us outp]
      py_get_twice [OF me lat] py_get_twice [OF h rid] py_get_once [OF stop]
    by simp
qed

subsection \<open>The further responses\<close>

lemma edge_list: "edge_loads ''[]'' = Some (JArr [])"
  by (simp add: edge_loads_def)

lemma edge_body_list: "edge_loads body_list_text = Some (JObj [(''body'', JStr ''[]'')])"
  by (simp add: edge_loads_def body_list_text_def)


lemma edge_loose: "edge_loads loose_text = Some loose_value"
  by (simp add: edge_loads_def body_list_text_def usage_null_text_def loose_text_def)




lemma loose_not_shaped: "\<not> response_shape loose_value loose_value"
  by (simp add: response_shape_def loose_value_def is_obj_def obj_or_absent_def field_def
      content_shape_def block_shape_def)

text \<open>
  The response with a string among its content blocks is not well-shaped, and it is
  normalised all the same: \<^verbatim>\<open>'text' in "tex"\<close> is a substring test that fails.
\<close>

lemma loose_run:
  "send_request edge_loads 200 loose_text ''sonnet'' =
     Inr \<lparr>text = ''ok'', tokens = JInt 0, input_tokens = JInt 0, output_tokens = JInt 0,
           latency_ms = JInt 0, request_id = JStr ''unknown'', model = ''sonnet'',
           stop_reason = JStr ''unknown'', raw_response = loose_value\<rparr>"
  by (simp add: send_request_def edge_loose loose_value_def unwrap_def extract_text_def
      py_contains_def py_getitem_def py_get_def py_iter_def)

text \<open>
  C4, as the code has it. Whenever normalisation returns a result, the body parses to an
  envelope, the inner response is the parse of the envelope's \<^verbatim>\<open>body\<close> field when that
  is a string and the envelope itself otherwise, and the text of the result is the
  in-order concatenation of the \<^verbatim>\<open>text\<close> fields of the blocks of
  \<^verbatim>\<open>inner.output.message.content\<close>, a block without one contributing nothing. On every
  well-shaped response normalisation does return such a result.
\<close>

theorem envelope_text_extraction:
  "(send_request loads status_code body model_alias = Inr r \<longrightarrow>
      (\<exists>envelope. loads body = Some envelope \<and>
         spec_inner loads envelope = Some (raw_response r) \<and>
         text r = concat (map block_text (content_blocks (raw_response r))))) \<and>
   (loads body = Some envelope \<and> spec_inner loads envelope = Some inner \<and>
    response_shape envelope inner \<longrightarrow>
      (\<exists>r. send_request loads 200 body model_alias = Inr r \<and> raw_response r = inner \<and>
         text r = concat (map block_text (content_blocks inner))))"
proof (intro conjI impI)
  assume "send_request loads status_code body model_alias = Inr r"
  from send_request_result [OF this]
  show "\<exists>envelope. loads body = Some envelope \<and>
          spec_inner loads envelope = Some (raw_response r) \<and>
          text r = concat (map block_text (content_blocks (raw_response r)))"
    by (auto simp add: spec_text_def)
next
  assume "loads body = Some envelope \<and> spec_inner loads envelope = Some inner \<and>
          response_shape envelope inner"
  then have "send_request loads 200 body model_alias =
           Inr \<lparr>text = spec_text inner,
                 tokens = lookup_default inner [''usage'', ''totalTokens''] (JInt 0),
                 input_tokens = lookup_default inner [''usage'', ''inputTokens''] (JInt 0),
                 output_tokens = lookup_default inner [''usage'', ''outputTokens''] (JInt 0),
                 latency_ms = lookup_default inner [''metrics'', ''latencyMs''] (JInt 0),
                 request_id = lookup_default envelope [''headers'', ''X-Request-ID''] (JStr ''unknown''),
                 model = model_alias,
                 stop_reason = lookup_default inner [''stopReason''] (JStr ''unknown''),
                 raw_response = inner\<rparr>"
    by (simp add: send_request_shaped)
  then show "\<exists>r. send_request loads 200 body model_alias = Inr r \<and> raw_response r = inner \<and>
               text r = concat (map block_text (content_blocks inner))"
    by (simp add: spec_text_def)
qed

theorem envelope_text_extraction_witness:
  "(\<exists>r. send_request example_loads 200 envelope_text ''sonnet'' = Inr r \<and>
        raw_response r = inner_value \<and> text r = ''hi there'') \<and>
   (\<exists>r. send_request edge_loads 200 loose_text ''sonnet'' = Inr r \<and>
        raw_response r = loose_value \<and> text r = ''ok'')"
proof
  have "\<exists>r. send_request example_loads 200 envelope_text ''sonnet'' = Inr r \<and>
          raw_response r = inner_value \<and>
          text r = concat (map block_text (content_blocks inner_value))"
    by (rule envelope_text_extraction [of example_loads 200 envelope_text "''sonnet''" _
          envelope_value inner_value, THEN conjunct2, THEN mp])
       (intro conjI loads_envelope inner_of_envelope shape_example)
  then show "\<exists>r. send_request example_loads 200 envelope_text ''sonnet'' = Inr r \<and>
          raw_response r = inner_value \<and> text r = ''hi there''"
    by (simp add: content_blocks_def inner_value_def field_def block_text_def)
next
  let ?r = "\<lparr>text = ''ok'', tokens = JInt 0, input_tokens = JInt 0, output_tokens = JInt 0,
           latency_ms = JInt 0, request_id = JStr ''unknown'', model = ''sonnet'',
           stop_reason = JStr ''unknown'', raw_response = loose_value\<rparr>"
  have "\<exists>envelope. edge_loads loose_text = Some envelope \<and>
          spec_inner edge_loads envelope = Some (raw_response ?r) \<and>
          text ?r = concat (map block_text (content_blocks (raw_response ?r)))"
    by (rule envelope_text_extraction [of edge_loads 200 loose_text "''sonnet''" ?r,
          THEN conjunct1, THEN mp]) (rule loose_run)
  then show "\<exists>r. send_request edge_loads 200 loose_text ''sonnet'' = Inr r \<and>
          raw_response r = loose_value \<and> text r = ''ok''"
    by (simp add: loose_run)
qed

text \<open>
  C4 as stated fails: the body \<^verbatim>\<open>{"body":"[]"}\<close> has status 200 and parses to an envelope with a
  string-typed \<^verbatim>\<open>body\<close> field, the inner response is the list that string parses to, and
  there is no result whose text could be compared: \<^verbatim>\<open>bedrock_response.get\<close> raises
  \<^verbatim>\<open>AttributeError\<close> on the list.
\<close>

theorem envelope_list_body_counterexample:
  "edge_loads body_list_text = Some (JObj [(''body'', JStr ''[]'')]) \<and>
   edge_loads ''[]'' = Some (JArr []) \<and>
   send_request edge_loads 200 body_list_text ''sonnet'' = Inl AttributeError"
  by (simp add: edge_body_list edge_list send_request_def unwrap_def extract_text_def
      py_contains_def py_getitem_def py_get_def)




text \<open>
  C6. Whenever normalisation succeeds, the request id is the value at
  \<^verbatim>\<open>headers\<close>, \<^verbatim>\<open>X-Request-ID\<close> of the outer envelope, the parse of the response body,
  and \<^verbatim>\<open>unknown\<close> when the envelope has no \<^verbatim>\<open>headers\<close> or they have no such key;
  the inner response plays no part, also when it came from the envelope's \<^verbatim>\<open>body\<close>.
\<close>

theorem request_id_from_envelope:
  assumes "send_request loads status_code body model_alias = Inr r"
  shows "\<exists>envelope. loads body = Some envelope \<and>
           request_id r =
             (case path_lookup envelope [''headers'', ''X-Request-ID''] of
                None \<Rightarrow> JStr ''unknown'' | Some v \<Rightarrow> v)"
proof -
  from assms have st: "status_code = 200"
    by (simp add: send_request_def split: if_splits)
  with assms obtain envelope where env: "loads body = Some envelope"
    by (cases "loads body") (simp_all add: send_request_def)
  from assms st env obtain headers where
    h: "py_get envelope ''headers'' (JObj []) = Inr headers" and
    rid: "py_get headers ''X-Request-ID'' (JStr ''unknown'') = Inr (request_id r)"
    by (auto simp add: send_request_def bind_Inr_iff)
  from py_get_twice [OF h rid] env show ?thesis
    by (simp add: lookup_default_def)
qed

theorem request_id_from_envelope_witness:
  "\<exists>r. send_request example_loads 200 envelope_text ''sonnet'' = Inr r \<and>
       raw_response r = inner_value \<and> request_id r = JStr ''outer-1''"
proof -
  from send_request_shaped [OF loads_envelope inner_of_envelope shape_example, of "''sonnet''"]
  obtain r where r: "send_request example_loads 200 envelope_text ''sonnet'' = Inr r"
    and raw: "raw_response r = inner_value"
    by simp
  from request_id_from_envelope [OF r] have "request_id r = JStr ''outer-1''"
    by (simp add: loads_envelope envelope_value_def field_def)
  with r raw show ?thesis by simp
qed

text \<open>
  C10. With status 200, when the body is not valid JSON, or it parses to an envelope whose
  \<^verbatim>\<open>body\<close> field is a string that is not valid JSON, normalisation raises the decode
  error of the parser: no result is returned, and the exception is not the gateway one.
\<close>

theorem invalid_json_raises:
  assumes "loads body = None \<or>
           (\<exists>envelope s. loads body = Some envelope \<and> field envelope ''body'' = Some (JStr s) \<and>
                          loads s = None)"
  shows "send_request loads 200 body model_alias = Inl JSONDecodeError"
  using assms
proof
  assume "loads body = None"
  then show ?thesis by (simp add: send_request_def)
next
  assume "\<exists>envelope s. loads body = Some envelope \<and> field envelope ''body'' = Some (JStr s) \<and>
                        loads s = None"
  then obtain envelope s where env: "loads body = Some envelope"
    and b: "field envelope ''body'' = Some (JStr s)" and s: "loads s = None"
    by blast
  from b have obj: "is_obj envelope"
    by (cases envelope) (simp_all add: field_def is_obj_def)
  have "unwrap loads envelope = Inl JSONDecodeError"
    using obj b s by (simp add: unwrap_obj spec_inner_def)
  with env show ?thesis by (simp add: send_request_def)
qed

theorem invalid_json_raises_witness:
  "send_request example_loads 200 ''not json'' ''sonnet'' = Inl JSONDecodeError \<and>
   send_request example_loads 200 broken_envelope_text ''sonnet'' = Inl JSONDecodeError"
  using invalid_json_raises [of example_loads "''not json''" "''sonnet''"]
        invalid_json_raises [of example_loads broken_envelope_text "''sonnet''"]
  by (simp add: loads_not_json loads_broken field_def)

section \<open>Settings and payload: theorems\<close>

lemma sel_assign_if:
  "gateway_url (assign_if b f c) = (if b then gateway_url (f c) else gateway_url c)"
  "api_id (assign_if b f c) = (if b then api_id (f c) else api_id c)"
  "region (assign_if b f c) = (if b then region (f c) else region c)"
  "stage (assign_if b f c) = (if b then stage (f c) else stage c)"
  "path (assign_if b f c) = (if b then path (f c) else path c)"
  "aws_profile (assign_if b f c) = (if b then aws_profile (f c) else aws_profile c)"
  "model_map (assign_if b f c) = (if b then model_map (f c) else model_map c)"
  "verbose (assign_if b f c) = (if b then verbose (f c) else verbose c)"
  by (simp_all add: assign_if_def)

text \<open>
  What the constructor merges, field by field, when no \<^verbatim>\<open>config\<close> is passed: for
  \<^verbatim>\<open>gateway_url\<close>, \<^verbatim>\<open>api_id\<close>, \<^verbatim>\<open>aws_profile\<close> and \<^verbatim>\<open>region\<close> the argument wins,
  then the environment, then the persisted value.
\<close>

lemma init_config_merged:
  "gateway_url (init_config g a r p None v env file) =
     (if truthy g then g
      else if truthy (env ''BEDROCK_GATEWAY_URL'') then env ''BEDROCK_GATEWAY_URL''
      else gateway_url (persisted file))"
  "api_id (init_config g a r p None v env file) =
     (if truthy a then a
      else if truthy (env ''BEDROCK_GATEWAY_API_ID'') then env ''BEDROCK_GATEWAY_API_ID''
      else api_id (persisted file))"
  "aws_profile (init_config g a r p None v env file) =
     (if truthy p then p
      else if truthy (env ''AWS_PROFILE'') then env ''AWS_PROFILE''
      else aws_profile (persisted file))"
  "region (init_config g a r p None v env file) =
     (if truthy r then the r
      else if getenv env ''BEDROCK_GATEWAY_REGION'' ''us-east-1'' \<noteq> ''us-east-1''
      then getenv env ''BEDROCK_GATEWAY_REGION'' ''us-east-1''
      else region (persisted file))"
  by (simp_all add: init_config_def from_env_def persisted_def Let_def sel_assign_if)

text \<open>
  \<^verbatim>\<open>stage\<close>, \<^verbatim>\<open>path\<close> and \<^verbatim>\<open>model_map\<close> are the persisted values whatever the
  environment holds, and \<^verbatim>\<open>verbose\<close> is the argument or the persisted value.
\<close>

lemma init_config_not_merged:
  "stage (init_config g a r p None v env file) = stage (persisted file)"
  "path (init_config g a r p None v env file) = path (persisted file)"
  "model_map (init_config g a r p None v env file) = model_map (persisted file)"
  "verbose (init_config g a r p None v env file) = (v \<or> verbose (persisted file))"
  by (simp_all add: init_config_def persisted_def Let_def sel_assign_if)

text \<open>
  C2. The claim gives every field the precedence argument, environment, persisted,
  default. At \<open>stage_env\<close>, with no settings file and no arguments, the environment sets
  \<^verbatim>\<open>BEDROCK_GATEWAY_STAGE\<close> to \<^verbatim>\<open>dev\<close> and \<^verbatim>\<open>from_env\<close> reads it, but the
  constructor never merges it: the effective stage is the default \<^verbatim>\<open>prod\<close>, and so is
  the stage in the URL.
\<close>

theorem env_stage_ignored:
  "stage (from_env stage_env) = ''dev'' \<and>
   stage (init_config None None None None None False stage_env None) = ''prod'' \<and>
   get_full_url (init_config None None None None None False stage_env None) =
     Inr ''https://abc123.execute-api.us-east-1.amazonaws.com/prod/invoke''"
  by (simp add: init_config_def from_env_def from_file_def Config_default_def stage_env_def
      getenv_def truthy_def get_full_url_def format_opt_def Let_def assign_if_def)

text \<open>
  C9. The \<^verbatim>\<open>model\<close> entry of the payload is the alias map's entry for the alias when the
  alias is a key of the map, and the alias itself otherwise.
\<close>

theorem payload_model:
  "(model_alias \<in> dom (model_map config) \<longrightarrow>
      field (chat_payload config message model_alias max_tokens temperature top_p system
               conversation_history) ''model'' =
        Some (JStr (the (model_map config model_alias)))) \<and>
   (model_alias \<notin> dom (model_map config) \<longrightarrow>
      field (chat_payload config message model_alias max_tokens temperature top_p system
               conversation_history) ''model'' =
        Some (JStr model_alias))"
  by (auto simp add: chat_payload_def field_def Let_def dom_def split: option.splits)

theorem payload_model_witness:
  "field (chat_payload Config_default ''hello'' ''custom.unmapped-id'' 2000 None None None None)
     ''model'' = Some (JStr ''custom.unmapped-id'') \<and>
   field (chat_payload Config_default ''hello'' ''sonnet'' 2000 None None None None)
     ''model'' = Some (JStr ''anthropic.claude-sonnet-4-5-v1:0'')"
  using payload_model [of "''custom.unmapped-id''" Config_default "''hello''" 2000 None None None None]
        payload_model [of "''sonnet''" Config_default "''hello''" 2000 None None None None]
  by (simp add: Config_default_def default_model_map_def dom_def)

end
